theory Spec2Isabelle
  imports Complex_Main "HOL-Library.Sublist"
begin

section \<open>Python values used by the price checker\<close>

text \<open>
  The program (\<^verbatim>\<open>amazon_price_change.py\<close>) compares two Python floats, subtracts them
  and prints them with the format \<^verbatim>\<open>:.2f\<close>. A Python float is an IEEE-754 binary64
  number. It is modelled by its exact value: a finite double is the rational it denotes,
  the negative zero, the two infinities and the not-a-number are values of their own.
  Every operation computes the exact rational result and rounds it to the nearest double
  (ties to even, 53 bits of significand, gradual underflow below \<open>2\<^sup>-\<^sup>1\<^sup>0\<^sup>2\<^sup>2\<close>,
  overflow to an infinity from \<open>2\<^sup>1\<^sup>0\<^sup>2\<^sup>4\<close>).
\<close>

datatype pyfloat = Finite rat | NegZero | PosInf | NegInf | NaN

text \<open>The position of the leading bit of a positive integer.\<close>

fun ilog2 :: "int \<Rightarrow> int" where
  "ilog2 n = (if n < 2 then 0 else ilog2 (n div 2) + 1)"

declare ilog2.simps [simp del]

definition pow2 :: "int \<Rightarrow> rat" where
  "pow2 k = (if 0 \<le> k then 2 ^ nat k else 1 / 2 ^ nat (- k))"

definition round_half_even :: "rat \<Rightarrow> int" where
  "round_half_even x =
     (let f = \<lfloor>x\<rfloor>; r = x - of_int f
      in if r < 1 / 2 then f else if 1 / 2 < r then f + 1 else if even f then f else f + 1)"

text \<open>
  The binary exponent \<open>e\<close> of a positive rational \<open>a\<close>: \<open>2\<^sup>e \<le> a < 2\<^sup>e\<^sup>+\<^sup>1\<close>. From 1 on it
  is the position of the leading bit of the integer part; below 1 it is found from the
  inverse.
\<close>

definition binexp :: "rat \<Rightarrow> int" where
  "binexp a = (if 1 \<le> a then ilog2 \<lfloor>a\<rfloor> else - (ilog2 (\<lceil>1 / a\<rceil> - 1) + 1))"

text \<open>
  The exponent of the last bit of the significand of the double nearest to \<open>a\<close>: 52 bits
  below the leading one, and never below that of the subnormal numbers.
\<close>

definition quantum :: "rat \<Rightarrow> int" where
  "quantum a = max (binexp a) (- 1022) - 52"

definition round_magnitude :: "rat \<Rightarrow> rat" where
  "round_magnitude a = of_int (round_half_even (a / pow2 (quantum a))) * pow2 (quantum a)"

definition signed_result :: "bool \<Rightarrow> rat \<Rightarrow> pyfloat" where
  "signed_result neg r =
     (if pow2 1024 \<le> r then (if neg then NegInf else PosInf)
      else if r = 0 then (if neg then NegZero else Finite 0)
      else Finite (if neg then - r else r))"

definition round_to_double :: "rat \<Rightarrow> pyfloat" where
  "round_to_double q = (if q = 0 then Finite 0 else signed_result (q < 0) (round_magnitude \<bar>q\<bar>))"

subsection \<open>Comparison and subtraction\<close>

text \<open>
  \<^verbatim>\<open>x <= y\<close> on floats: false as soon as one side is not a number; the two zeros are
  equal.
\<close>

fun float_le :: "pyfloat \<Rightarrow> pyfloat \<Rightarrow> bool" where
  "float_le NaN _ = False"
| "float_le _ NaN = False"
| "float_le NegInf _ = True"
| "float_le _ PosInf = True"
| "float_le PosInf _ = False"
| "float_le _ NegInf = False"
| "float_le (Finite a) (Finite b) = (a \<le> b)"
| "float_le (Finite a) NegZero = (a \<le> 0)"
| "float_le NegZero (Finite b) = (0 \<le> b)"
| "float_le NegZero NegZero = True"

text \<open>\<^verbatim>\<open>x > y\<close> on floats.\<close>

fun float_gt :: "pyfloat \<Rightarrow> pyfloat \<Rightarrow> bool" where
  "float_gt NaN _ = False"
| "float_gt _ NaN = False"
| "float_gt NegInf _ = False"
| "float_gt _ PosInf = False"
| "float_gt PosInf _ = True"
| "float_gt _ NegInf = True"
| "float_gt (Finite a) (Finite b) = (b < a)"
| "float_gt (Finite a) NegZero = (0 < a)"
| "float_gt NegZero (Finite b) = (b < 0)"
| "float_gt NegZero NegZero = False"

text \<open>\<^verbatim>\<open>x == y\<close> on floats.\<close>

definition float_eq :: "pyfloat \<Rightarrow> pyfloat \<Rightarrow> bool" where
  "float_eq x y = (float_le x y \<and> float_le y x)"

text \<open>\<^verbatim>\<open>x - y\<close> on floats, rounded to the nearest double.\<close>

fun float_sub :: "pyfloat \<Rightarrow> pyfloat \<Rightarrow> pyfloat" where
  "float_sub NaN _ = NaN"
| "float_sub _ NaN = NaN"
| "float_sub PosInf PosInf = NaN"
| "float_sub NegInf NegInf = NaN"
| "float_sub PosInf _ = PosInf"
| "float_sub NegInf _ = NegInf"
| "float_sub _ PosInf = NegInf"
| "float_sub _ NegInf = PosInf"
| "float_sub NegZero NegZero = Finite 0"
| "float_sub NegZero (Finite b) = (if b = 0 then NegZero else Finite (- b))"
| "float_sub (Finite a) NegZero = Finite a"
| "float_sub (Finite a) (Finite b) = round_to_double (a - b)"

subsection \<open>Formatting with two decimals\<close>

definition digit_char :: "int \<Rightarrow> char" where
  "digit_char n = ''0123456789'' ! nat (n mod 10)"

text \<open>The decimal digits of a natural number.\<close>

fun str_nat :: "int \<Rightarrow> string" where
  "str_nat n = (if n < 10 then [digit_char n] else str_nat (n div 10) @ [digit_char n])"

declare str_nat.simps [simp del]

text \<open>A number of hundredths as \<^verbatim>\<open>units.dd\<close>.\<close>

definition fixed2 :: "int \<Rightarrow> string" where
  "fixed2 n = str_nat (n div 100) @ ''.'' @ [digit_char (n div 10), digit_char n]"

text \<open>
  \<^verbatim>\<open>f"{x:.2f}"\<close>: the exact value of the double rounded to two decimals, ties to even;
  the sign is printed for every negative value and for the negative zero.
\<close>

fun fmt2 :: "pyfloat \<Rightarrow> string" where
  "fmt2 NaN = ''nan''"
| "fmt2 PosInf = ''inf''"
| "fmt2 NegInf = ''-inf''"
| "fmt2 NegZero = ''-0.00''"
| "fmt2 (Finite q) = (if q < 0 then ''-'' else []) @ fixed2 (round_half_even (\<bar>q\<bar> * 100))"

declare fmt2.simps [simp del]

subsection \<open>Reading a float from a string\<close>

text \<open>
  \<^verbatim>\<open>float(s)\<close> on a string of ASCII characters: white space is stripped at both
  ends; an underscore may stand between two digits only; then comes an optional sign and
  either \<^verbatim>\<open>inf\<close>, \<^verbatim>\<open>infinity\<close> or \<^verbatim>\<open>nan\<close> in any case, or a decimal number with an
  optional fraction and an optional exponent. \<open>None\<close> is Python's \<^verbatim>\<open>ValueError\<close>.
\<close>

definition is_space :: "char \<Rightarrow> bool" where
  "is_space c = (c \<in> set [CHR '' '', CHR 0x09, CHR 0x0A, CHR 0x0B, CHR 0x0C, CHR 0x0D])"

definition is_digit :: "char \<Rightarrow> bool" where
  "is_digit c = (c \<in> set ''0123456789'')"

definition strip :: "string \<Rightarrow> string" where
  "strip s = rev (dropWhile is_space (rev (dropWhile is_space s)))"

fun underscores_ok :: "char \<Rightarrow> string \<Rightarrow> bool" where
  "underscores_ok prev [] = (prev \<noteq> CHR ''_'')"
| "underscores_ok prev (c # cs) =
     (if c = CHR ''_'' then is_digit prev \<and> underscores_ok c cs
      else if prev = CHR ''_'' then is_digit c \<and> underscores_ok c cs
      else underscores_ok c cs)"

fun remove_underscores :: "string \<Rightarrow> string" where
  "remove_underscores [] = []"
| "remove_underscores (c # cs) =
     (if c = CHR ''_'' then remove_underscores cs else c # remove_underscores cs)"

definition digit_val :: "char \<Rightarrow> int" where
  "digit_val c = of_char c - 48"

definition int_of_digits :: "string \<Rightarrow> int" where
  "int_of_digits ds = foldl (\<lambda>n c. 10 * n + digit_val c) 0 ds"

definition lower_char :: "char \<Rightarrow> char" where
  "lower_char c =
     (case map_of (zip ''ABCDEFGHIJKLMNOPQRSTUVWXYZ'' ''abcdefghijklmnopqrstuvwxyz'') c of
        None \<Rightarrow> c
      | Some d \<Rightarrow> d)"

definition lower :: "string \<Rightarrow> string" where
  "lower s = map lower_char s"

definition split_sign :: "string \<Rightarrow> bool \<times> string" where
  "split_sign s =
     (case s of
        [] \<Rightarrow> (False, [])
      | c # cs \<Rightarrow> if c = CHR ''-'' then (True, cs) else if c = CHR ''+'' then (False, cs) else (False, s))"

definition pow10 :: "int \<Rightarrow> rat" where
  "pow10 k = (if 0 \<le> k then 10 ^ nat k else 1 / 10 ^ nat (- k))"

text \<open>The exponent part: nothing, or \<^verbatim>\<open>e\<close> with an optional sign and at least one digit.\<close>

definition signed_digits :: "bool \<times> string \<Rightarrow> int option" where
  "signed_digits sd =
     (if snd sd \<noteq> [] \<and> list_all is_digit (snd sd)
      then Some (if fst sd then - int_of_digits (snd sd) else int_of_digits (snd sd))
      else None)"

definition parse_exponent :: "string \<Rightarrow> int option" where
  "parse_exponent r =
     (case r of
        [] \<Rightarrow> Some 0
      | c # cs \<Rightarrow> if c = CHR ''e'' \<or> c = CHR ''E'' then signed_digits (split_sign cs) else None)"

text \<open>The digits after the point, and what follows the fraction.\<close>

definition frac_digits :: "string \<Rightarrow> string" where
  "frac_digits r = (case r of [] \<Rightarrow> [] | c # cs \<Rightarrow> if c = CHR ''.'' then takeWhile is_digit cs else [])"

definition after_frac :: "string \<Rightarrow> string" where
  "after_frac r = (case r of [] \<Rightarrow> [] | c # cs \<Rightarrow> if c = CHR ''.'' then dropWhile is_digit cs else r)"

text \<open>The double nearest to \<open>\<plusminus> m \<times> 10\<^sup>e\<close>.\<close>

definition decimal_value :: "bool \<Rightarrow> int \<Rightarrow> int \<Rightarrow> pyfloat" where
  "decimal_value neg m e =
     (if m = 0 then (if neg then NegZero else Finite 0)
      else round_to_double ((if neg then - 1 else 1) * of_int m * pow10 e))"

definition parse_decimal :: "bool \<Rightarrow> string \<Rightarrow> pyfloat option" where
  "parse_decimal neg v =
     (if takeWhile is_digit v = [] \<and> frac_digits (dropWhile is_digit v) = [] then None
      else case parse_exponent (after_frac (dropWhile is_digit v)) of
             None \<Rightarrow> None
           | Some e \<Rightarrow>
               Some (decimal_value neg
                      (int_of_digits (takeWhile is_digit v @ frac_digits (dropWhile is_digit v)))
                      (e - int (length (frac_digits (dropWhile is_digit v))))))"

definition parse_signed :: "bool \<times> string \<Rightarrow> pyfloat option" where
  "parse_signed sv =
     (if lower (snd sv) = ''inf'' \<or> lower (snd sv) = ''infinity''
      then Some (if fst sv then NegInf else PosInf)
      else if lower (snd sv) = ''nan'' then Some NaN
      else parse_decimal (fst sv) (snd sv))"

definition python_float :: "string \<Rightarrow> pyfloat option" where
  "python_float s =
     (if underscores_ok (CHR 0x00) (strip s)
      then parse_signed (split_sign (remove_underscores (strip s)))
      else None)"

section \<open>Exceptions\<close>

text \<open>
  The exceptions that reach an \<^verbatim>\<open>except\<close> clause of the program, by the classes those
  clauses tell apart, each with its message (\<^verbatim>\<open>str(e)\<close>). \<open>SMTPException\<close> stands for
  every SMTP error that is not an authentication error, \<open>Exception\<close> for every other
  subclass of Python's \<^verbatim>\<open>Exception\<close>.
\<close>

datatype exn_class =
  KeyError | IndexError | AttributeError | TypeError | ValueError
  | SMTPAuthenticationError | SMTPException | Exception

datatype exn = Exn exn_class string

fun exn_str :: "exn \<Rightarrow> string" where
  "exn_str (Exn c m) = m"

text \<open>\<^verbatim>\<open>except KeyError\<close>.\<close>

fun is_KeyError :: "exn \<Rightarrow> bool" where
  "is_KeyError (Exn c m) = (c = KeyError)"

text \<open>\<^verbatim>\<open>except smtplib.SMTPAuthenticationError\<close>.\<close>

fun is_SMTPAuthenticationError :: "exn \<Rightarrow> bool" where
  "is_SMTPAuthenticationError (Exn c m) = (c = SMTPAuthenticationError)"

text \<open>\<^verbatim>\<open>except smtplib.SMTPException\<close>: the authentication error is a subclass.\<close>

fun is_SMTPException :: "exn \<Rightarrow> bool" where
  "is_SMTPException (Exn c m) = (c = SMTPAuthenticationError \<or> c = SMTPException)"


definition bind_exn :: "exn + 'a \<Rightarrow> ('a \<Rightarrow> exn + 'b) \<Rightarrow> exn + 'b" where
  "bind_exn m f = (case m of Inl e \<Rightarrow> Inl e | Inr x \<Rightarrow> f x)"

text \<open>
  \<^verbatim>\<open>repr\<close> of a string, as it stands in the messages of \<^verbatim>\<open>KeyError\<close> and \<^verbatim>\<open>ValueError\<close>:
  the string between single quotes (exact for strings without quotes, backslashes and
  control characters, which the names of the environment variables are).
\<close>

definition py_repr :: "string \<Rightarrow> string" where
  "py_repr s = [CHR 0x27] @ s @ [CHR 0x27]"

text \<open>\<^verbatim>\<open>float(s)\<close> on a string, with its error.\<close>

definition float_of_str :: "string \<Rightarrow> exn + pyfloat" where
  "float_of_str s =
     (case python_float s of
        None \<Rightarrow> Inl (Exn ValueError (''could not convert string to float: '' @ py_repr s))
      | Some x \<Rightarrow> Inr x)"

section \<open>Configuration\<close>

record config =
  amazon_access_key :: string
  amazon_secret_key :: string
  amazon_associate_tag :: string
  amazon_region :: string
  twilio_account_sid :: string
  twilio_auth_token :: string
  twilio_from_number :: string
  twilio_to_number :: string
  gmail_user :: string
  gmail_app_password :: string
  email_from :: string
  email_to :: string
  product_id :: string
  expected_price :: pyfloat

text \<open>\<^verbatim>\<open>os.environ[k]\<close> raises \<^verbatim>\<open>KeyError(k)\<close> when the variable is not set.\<close>

definition environ_get :: "(string \<rightharpoonup> string) \<Rightarrow> string \<Rightarrow> exn + string" where
  "environ_get env k = (case env k of None \<Rightarrow> Inl (Exn KeyError (py_repr k)) | Some v \<Rightarrow> Inr v)"

text \<open>\<^verbatim>\<open>os.getenv(k, default)\<close>.\<close>

definition getenv :: "(string \<rightharpoonup> string) \<Rightarrow> string \<Rightarrow> string \<Rightarrow> string" where
  "getenv env k d = (case env k of None \<Rightarrow> d | Some v \<Rightarrow> v)"

text \<open>
  \<^verbatim>\<open>Config.from_env\<close>: the arguments of the constructor are evaluated in the order they
  are written, so the first variable that is not set raises, and the price is converted
  last.
\<close>

definition from_env :: "(string \<rightharpoonup> string) \<Rightarrow> exn + config" where
  "from_env env =
     bind_exn (environ_get env ''AMAZON_ACCESS_KEY'') (\<lambda>access_key.
     bind_exn (environ_get env ''AMAZON_SECRET_KEY'') (\<lambda>secret_key.
     bind_exn (environ_get env ''AMAZON_ASSOCIATE_TAG'') (\<lambda>associate_tag.
     bind_exn (Inr (getenv env ''AMAZON_REGION'' ''US'')) (\<lambda>region.
     bind_exn (environ_get env ''TWILIO_ACCOUNT_SID'') (\<lambda>account_sid.
     bind_exn (environ_get env ''TWILIO_AUTH_TOKEN'') (\<lambda>auth_token.
     bind_exn (environ_get env ''TWILIO_FROM_NUMBER'') (\<lambda>from_number.
     bind_exn (environ_get env ''TWILIO_TO_NUMBER'') (\<lambda>to_number.
     bind_exn (environ_get env ''GMAIL_USER'') (\<lambda>user.
     bind_exn (environ_get env ''GMAIL_APP_PASSWORD'') (\<lambda>app_password.
     bind_exn (environ_get env ''EMAIL_FROM'') (\<lambda>mail_from.
     bind_exn (environ_get env ''EMAIL_TO'') (\<lambda>mail_to.
     bind_exn (environ_get env ''AMAZON_PRODUCT_ID'') (\<lambda>pid.
     bind_exn (environ_get env ''EXPECTED_PRICE'') (\<lambda>price_str.
     bind_exn (float_of_str price_str) (\<lambda>price.
     Inr \<lparr> amazon_access_key = access_key,
           amazon_secret_key = secret_key,
           amazon_associate_tag = associate_tag,
           amazon_region = region,
           twilio_account_sid = account_sid,
           twilio_auth_token = auth_token,
           twilio_from_number = from_number,
           twilio_to_number = to_number,
           gmail_user = user,
           gmail_app_password = app_password,
           email_from = mail_from,
           email_to = mail_to,
           product_id = pid,
           expected_price = price \<rparr>)))))))))))))))"


section \<open>The outside world\<close>

text \<open>
  The response of the product API as \<^verbatim>\<open>get_product_info\<close> reads it: a list of items;
  of an item the attributes \<^verbatim>\<open>item_info.title.display_value\<close> and
  \<^verbatim>\<open>offers.listings[0].price.amount\<close>. Every object on the two paths may be
  \<^verbatim>\<open>None\<close>. The amount is \<^verbatim>\<open>None\<close>, a float or a string.
\<close>

datatype pyval = PyNone | PyFloat pyfloat | PyStr string

datatype title_t = Title "string option"

datatype item_info_t = ItemInfo "title_t option"

datatype price_t = Price pyval

datatype listing_t = Listing "price_t option"

datatype offers_t = Offers "listing_t list option"

datatype product = Product "item_info_t option" "offers_t option"

record email_message =
  msg_from :: string
  msg_to :: string
  msg_subject :: string
  msg_body :: string
  msg_subtype :: string

text \<open>
  What the program does to the outside, in the order it does it: a line printed, the
  product lookup (the client built from the credentials and the region, and
  \<^verbatim>\<open>get_items\<close> for the product), the SMS notifier's call of the messaging provider (the
  client built from the account and \<^verbatim>\<open>messages.create\<close>) and the email notifier's SMTP
  session (login and \<^verbatim>\<open>sendmail\<close> of the message).
\<close>

datatype event =
  Print string
  | AmazonLookup string string string string string
  | TwilioSms string string string string string
  | SmtpSession string string string string email_message

text \<open>
  The outside world answers each call: the environment variables (after
  \<^verbatim>\<open>load_dotenv\<close>), the items the product API returns or the exception it raises, the
  message identifier of the messaging provider or its exception, and the first exception
  of the SMTP session, if any. The exceptions are instances of \<^verbatim>\<open>Exception\<close>, as those of
  the three libraries are. Printing, composing the MIME message and creating the default
  TLS context are taken not to fail.
\<close>

record world =
  environ :: "string \<rightharpoonup> string"
  amazon_get_items :: "string \<Rightarrow> string \<Rightarrow> string \<Rightarrow> string \<Rightarrow> string \<Rightarrow> exn + product list"
  twilio_create :: "string \<Rightarrow> string \<Rightarrow> string \<Rightarrow> string \<Rightarrow> string \<Rightarrow> exn + string"
  smtp_session :: "string \<Rightarrow> string \<Rightarrow> string \<Rightarrow> string \<Rightarrow> email_message \<Rightarrow> exn option"

fun is_sms :: "event \<Rightarrow> bool" where
  "is_sms (TwilioSms sid token body to_number from_number) = True"
| "is_sms _ = False"

fun is_email :: "event \<Rightarrow> bool" where
  "is_email (SmtpSession user password sender rcpt msg) = True"
| "is_email _ = False"

fun is_print :: "event \<Rightarrow> bool" where
  "is_print (Print s) = True"
| "is_print _ = False"

definition sms_calls :: "event list \<Rightarrow> event list" where
  "sms_calls tr = filter is_sms tr"

definition email_calls :: "event list \<Rightarrow> event list" where
  "email_calls tr = filter is_email tr"

definition network_calls :: "event list \<Rightarrow> event list" where
  "network_calls tr = filter (\<lambda>e. \<not> is_print e) tr"

definition printed :: "event list \<Rightarrow> string list" where
  "printed tr = concat (map (\<lambda>e. case e of Print s \<Rightarrow> [s] | _ \<Rightarrow> []) tr)"

section \<open>The notifiers\<close>

text \<open>
  \<^verbatim>\<open>send_sms\<close>: the whole body is in a \<^verbatim>\<open>try\<close> whose \<^verbatim>\<open>except Exception\<close> prints the
  failure and returns \<^verbatim>\<open>None\<close>.
\<close>

definition sms_call :: "config \<Rightarrow> string \<Rightarrow> event" where
  "sms_call cfg message_body =
     TwilioSms (twilio_account_sid cfg) (twilio_auth_token cfg) message_body
       (twilio_to_number cfg) (twilio_from_number cfg)"

definition send_sms :: "world \<Rightarrow> config \<Rightarrow> string \<Rightarrow> event list \<times> string option" where
  "send_sms w cfg message_body =
     (case twilio_create w (twilio_account_sid cfg) (twilio_auth_token cfg) message_body
             (twilio_to_number cfg) (twilio_from_number cfg) of
        Inr sid \<Rightarrow>
          ([sms_call cfg message_body, Print (''SMS sent successfully. SID: '' @ sid)], Some sid)
      | Inl e \<Rightarrow>
          ([sms_call cfg message_body, Print (''Failed to send SMS: '' @ exn_str e)], None))"

text \<open>\<^verbatim>\<open>str(title)\<close> in an f-string: the title is a string, or \<^verbatim>\<open>None\<close>.\<close>

definition py_str :: "string option \<Rightarrow> string" where
  "py_str t = (case t of None \<Rightarrow> ''None'' | Some s \<Rightarrow> s)"

definition nl :: string where
  "nl = [CHR 0x0A]"

definition email_subject :: string where
  "email_subject = ''Amazon Price Alert - Price Drop!''"

text \<open>The lines of the body before and after those of the product.\<close>

definition email_intro :: string where
  "email_intro =
     nl @ ''    Good news! The price has dropped on a product you'' @ [CHR 0x27]
        @ ''re tracking.'' @ nl
     @ nl"

definition email_outro :: string where
  "email_outro =
     nl
     @ ''    This is a great time to make your purchase!'' @ nl
     @ ''    ''"

definition email_body :: "config \<Rightarrow> string option \<Rightarrow> pyfloat \<Rightarrow> string" where
  "email_body cfg title price =
     email_intro
     @ ''    Product: '' @ py_str title @ nl
     @ ''    Current Price: $'' @ fmt2 price @ nl
     @ ''    Your Target Price: $'' @ fmt2 (expected_price cfg) @ nl
     @ email_outro"

definition email_of :: "config \<Rightarrow> string option \<Rightarrow> pyfloat \<Rightarrow> email_message" where
  "email_of cfg title price =
     \<lparr> msg_from = email_from cfg, msg_to = email_to cfg, msg_subject = email_subject,
       msg_body = email_body cfg title price, msg_subtype = ''plain'' \<rparr>"

text \<open>
  \<^verbatim>\<open>send_email\<close>: the message is composed, then the SMTP session runs in a \<^verbatim>\<open>try\<close>
  with three \<^verbatim>\<open>except\<close> clauses, tried in the order they are written.
\<close>

definition email_call :: "config \<Rightarrow> string option \<Rightarrow> pyfloat \<Rightarrow> event" where
  "email_call cfg title price =
     SmtpSession (gmail_user cfg) (gmail_app_password cfg) (email_from cfg) (email_to cfg)
       (email_of cfg title price)"

definition send_email :: "world \<Rightarrow> config \<Rightarrow> string option \<Rightarrow> pyfloat \<Rightarrow> event list \<times> bool" where
  "send_email w cfg title price =
     (case smtp_session w (gmail_user cfg) (gmail_app_password cfg) (email_from cfg)
             (email_to cfg) (email_of cfg title price) of
        None \<Rightarrow> ([email_call cfg title price, Print ''Email sent successfully!''], True)
      | Some e \<Rightarrow>
          if is_SMTPAuthenticationError e then
            ([email_call cfg title price,
              Print ''Failed to send email: Authentication error. Check your credentials.''],
             False)
          else if is_SMTPException e then
            ([email_call cfg title price,
              Print (''Failed to send email: SMTP error - '' @ exn_str e)], False)
          else ([email_call cfg title price, Print (''Failed to send email: '' @ exn_str e)],
                False))"

section \<open>The product lookup\<close>

text \<open>An attribute read on \<^verbatim>\<open>None\<close> raises \<^verbatim>\<open>AttributeError\<close>.\<close>

definition getattr :: "'a option \<Rightarrow> string \<Rightarrow> exn + 'a" where
  "getattr obj name =
     (case obj of
        None \<Rightarrow> Inl (Exn AttributeError
                  ([CHR 0x27] @ ''NoneType'' @ [CHR 0x27] @ '' object has no attribute ''
                   @ py_repr name))
      | Some x \<Rightarrow> Inr x)"

text \<open>\<^verbatim>\<open>xs[0]\<close> on a list.\<close>

definition first_item :: "'a list \<Rightarrow> exn + 'a" where
  "first_item xs = (case xs of [] \<Rightarrow> Inl (Exn IndexError ''list index out of range'') | x # _ \<Rightarrow> Inr x)"

text \<open>\<^verbatim>\<open>xs[0]\<close> on a list that may be \<^verbatim>\<open>None\<close>.\<close>

definition subscript0 :: "'a list option \<Rightarrow> exn + 'a" where
  "subscript0 obj =
     (case obj of
        None \<Rightarrow> Inl (Exn TypeError
                  ([CHR 0x27] @ ''NoneType'' @ [CHR 0x27] @ '' object is not subscriptable''))
      | Some xs \<Rightarrow> first_item xs)"

text \<open>\<^verbatim>\<open>float(x)\<close> on a value of the response.\<close>

definition float_of :: "pyval \<Rightarrow> exn + pyfloat" where
  "float_of v =
     (case v of
        PyNone \<Rightarrow> Inl (Exn TypeError
                    (''float() argument must be a string or a real number, not ''
                     @ py_repr ''NoneType''))
      | PyFloat x \<Rightarrow> Inr x
      | PyStr s \<Rightarrow> float_of_str s)"

text \<open>\<^verbatim>\<open>product.item_info.title.display_value\<close>.\<close>

definition product_title :: "product \<Rightarrow> exn + string option" where
  "product_title p =
     (case p of Product item_info offers \<Rightarrow>
        bind_exn (getattr item_info ''title'') (\<lambda>ii. case ii of ItemInfo title \<Rightarrow>
        bind_exn (getattr title ''display_value'') (\<lambda>t. case t of Title display_value \<Rightarrow>
        Inr display_value)))"

text \<open>\<^verbatim>\<open>float(product.offers.listings[0].price.amount)\<close>.\<close>

definition product_price :: "product \<Rightarrow> exn + pyfloat" where
  "product_price p =
     (case p of Product item_info offers \<Rightarrow>
        bind_exn (getattr offers ''listings'') (\<lambda>off. case off of Offers listings \<Rightarrow>
        bind_exn (subscript0 listings) (\<lambda>l. case l of Listing price \<Rightarrow>
        bind_exn (getattr price ''amount'') (\<lambda>pr. case pr of Price amount \<Rightarrow>
        float_of amount))))"

definition lookup_call :: "config \<Rightarrow> event" where
  "lookup_call cfg =
     AmazonLookup (amazon_access_key cfg) (amazon_secret_key cfg) (amazon_associate_tag cfg)
       (amazon_region cfg) (product_id cfg)"

definition get_product_info ::
  "world \<Rightarrow> config \<Rightarrow> event list \<times> (exn + string option \<times> pyfloat)" where
  "get_product_info w cfg =
     ([lookup_call cfg],
      bind_exn (amazon_get_items w (amazon_access_key cfg) (amazon_secret_key cfg)
                  (amazon_associate_tag cfg) (amazon_region cfg) (product_id cfg)) (\<lambda>products.
      bind_exn (first_item products) (\<lambda>product.
      bind_exn (product_title product) (\<lambda>title.
      bind_exn (product_price product) (\<lambda>price.
      Inr (title, price))))))"

section \<open>The orchestrator\<close>

definition notification_msg :: "string option \<Rightarrow> pyfloat \<Rightarrow> string" where
  "notification_msg title price = ''Price Alert: '' @ py_str title @ '' is now $'' @ fmt2 price @ ''!''"

text \<open>The three lines printed after the lookup.\<close>

definition report_lines :: "config \<Rightarrow> string option \<Rightarrow> pyfloat \<Rightarrow> event list" where
  "report_lines cfg title price =
     [Print (''Product: '' @ py_str title),
      Print (''Current Price: $'' @ fmt2 price),
      Print (''Target Price: $'' @ fmt2 (expected_price cfg))]"

definition check_price_and_notify :: "world \<Rightarrow> config \<Rightarrow> event list \<times> (exn + unit)" where
  "check_price_and_notify w cfg =
     (case get_product_info w cfg of
        (evs, Inl e) \<Rightarrow> ([Print ''Fetching product information...''] @ evs, Inl e)
      | (evs, Inr (title, price)) \<Rightarrow>
          if float_le price (expected_price cfg) then
            ([Print ''Fetching product information...''] @ evs @ report_lines cfg title price
               @ [Print (nl @ ''Price is at or below target! Sending notifications...'')]
               @ fst (send_sms w cfg (notification_msg title price))
               @ fst (send_email w cfg title price),
             Inr ())
          else
            ([Print ''Fetching product information...''] @ evs @ report_lines cfg title price
               @ [Print (nl @ ''Price is still above target by $''
                          @ fmt2 (float_sub price (expected_price cfg)))],
             Inr ()))"

text \<open>
  \<^verbatim>\<open>main\<close>, with the exit status of the process: \<open>1\<close> where \<^verbatim>\<open>SystemExit(1)\<close> is
  raised, \<open>0\<close> where \<^verbatim>\<open>main\<close> returns.
\<close>

definition on_error :: "exn \<Rightarrow> event list" where
  "on_error e =
     (if is_KeyError e then
        [Print (''Missing required environment variable: '' @ exn_str e),
         Print ''Please check your .env file or environment configuration.'']
      else [Print (''An error occurred: '' @ exn_str e)])"

definition main :: "world \<Rightarrow> event list \<times> nat" where
  "main w =
     (case from_env (environ w) of
        Inl e \<Rightarrow> (on_error e, 1)
      | Inr cfg \<Rightarrow>
          (case check_price_and_notify w cfg of
             (evs, Inl e) \<Rightarrow> (evs @ on_error e, 1)
           | (evs, Inr u) \<Rightarrow> (evs, 0)))"

section \<open>Failing lookups and example runs\<close>



text \<open>The body of the SMS of a call of the messaging provider.\<close>

fun sms_body :: "event \<Rightarrow> string" where
  "sms_body (TwilioSms sid token body to_number from_number) = body"
| "sms_body _ = []"

text \<open>
  An environment with every variable set but the region, a configuration read from it,
  an item with a title and a price, and a world that answers every call the same way.
\<close>

definition demo_env :: "string \<Rightarrow> (string \<rightharpoonup> string)" where
  "demo_env target =
     map_of
       [(''AMAZON_ACCESS_KEY'', ''AK''), (''AMAZON_SECRET_KEY'', ''SK''),
        (''AMAZON_ASSOCIATE_TAG'', ''tag-20''), (''TWILIO_ACCOUNT_SID'', ''AC1''),
        (''TWILIO_AUTH_TOKEN'', ''tok''), (''TWILIO_FROM_NUMBER'', ''+15550001''),
        (''TWILIO_TO_NUMBER'', ''+15550002''), (''GMAIL_USER'', ''me@example.com''),
        (''GMAIL_APP_PASSWORD'', ''pw''), (''EMAIL_FROM'', ''me@example.com''),
        (''EMAIL_TO'', ''you@example.com''), (''AMAZON_PRODUCT_ID'', ''B000TEST''),
        (''EXPECTED_PRICE'', target)]"

definition demo_config :: "pyfloat \<Rightarrow> config" where
  "demo_config target =
     \<lparr> amazon_access_key = ''AK'', amazon_secret_key = ''SK'', amazon_associate_tag = ''tag-20'',
       amazon_region = ''US'', twilio_account_sid = ''AC1'', twilio_auth_token = ''tok'',
       twilio_from_number = ''+15550001'', twilio_to_number = ''+15550002'',
       gmail_user = ''me@example.com'', gmail_app_password = ''pw'',
       email_from = ''me@example.com'', email_to = ''you@example.com'',
       product_id = ''B000TEST'', expected_price = target \<rparr>"

definition demo_item :: "string \<Rightarrow> pyval \<Rightarrow> product" where
  "demo_item t a =
     Product (Some (ItemInfo (Some (Title (Some t))))) (Some (Offers (Some [Listing (Some (Price a))])))"

definition demo_world ::
  "(string \<rightharpoonup> string) \<Rightarrow> exn + product list \<Rightarrow> exn + string \<Rightarrow> exn option \<Rightarrow> world" where
  "demo_world env items sms smtp =
     \<lparr> environ = env,
       amazon_get_items = (\<lambda>access_key secret_key tag region pid. items),
       twilio_create = (\<lambda>sid token body to_number from_number. sms),
       smtp_session = (\<lambda>user password sender rcpt msg. smtp) \<rparr>"

text \<open>The doubles nearest to 49.99 and to 50.01.\<close>

definition price_49_99 :: pyfloat where
  "price_49_99 = Finite (7035467042882847 / 140737488355328)"

definition price_50_01 :: pyfloat where
  "price_50_01 = Finite (7038281792649953 / 140737488355328)"

section \<open>Evaluation of the examples\<close>

text \<open>
  The floor and the ceiling of a quotient of numerals, for the simplifier; with them it
  evaluates the float operations on concrete values.
\<close>

lemma floor_rat_numeral_divide [simp]:
  "\<lfloor>numeral a / numeral b :: rat\<rfloor> = numeral a div numeral b"
  by (metis floor_divide_of_int_eq of_int_numeral)

lemma ceiling_rat_numeral_divide [simp]:
  "\<lceil>numeral a / numeral b :: rat\<rceil> = - (- numeral a div numeral b)"
  by (metis ceiling_def floor_divide_of_int_eq minus_divide_left of_int_minus of_int_numeral)

lemmas float_parse_defs =
  python_float_def strip_def is_space_def is_digit_def split_sign_def lower_def lower_char_def
  parse_signed_def parse_decimal_def parse_exponent_def signed_digits_def frac_digits_def
  after_frac_def int_of_digits_def digit_val_def pow10_def decimal_value_def

lemmas float_round_defs =
  round_to_double_def signed_result_def round_magnitude_def quantum_def binexp_def pow2_def
  round_half_even_def ilog2.simps Let_def

lemmas fmt_defs = fmt2.simps fixed2_def str_nat.simps digit_char_def

text \<open>The prices of the examples are the doubles that Python reads from their literals.\<close>

lemma python_float_49_99: "python_float ''49.99'' = Some price_49_99"
  by (simp add: float_parse_defs float_round_defs price_49_99_def)

lemma python_float_50_01: "python_float ''50.01'' = Some price_50_01"
  by (simp add: float_parse_defs float_round_defs price_50_01_def)

lemma python_float_50_00: "python_float ''50.00'' = Some (Finite 50)"
  by (simp add: float_parse_defs float_round_defs)

lemma fmt2_49_99: "fmt2 price_49_99 = ''49.99''"
  by (simp add: fmt_defs round_half_even_def Let_def price_49_99_def)

lemma fmt2_50_01: "fmt2 price_50_01 = ''50.01''"
  by (simp add: fmt_defs round_half_even_def Let_def price_50_01_def)

lemma fmt2_50: "fmt2 (Finite 50) = ''50.00''"
  by (simp add: fmt_defs round_half_even_def Let_def)

lemma shortfall_50_01: "fmt2 (float_sub price_50_01 (Finite 50)) = ''0.01''"
  by (simp add: fmt_defs float_round_defs price_50_01_def)

lemma from_env_demo:
  "python_float t = Some x \<Longrightarrow> from_env (demo_env t) = Inr (demo_config x)"
  by (simp add: from_env_def demo_env_def demo_config_def bind_exn_def environ_get_def
      getenv_def float_of_str_def)

section \<open>The rounding of the float model\<close>

lemma ilog2_nonneg: "0 \<le> ilog2 n"
  by (induction n rule: ilog2.induct) (subst ilog2.simps, simp)

lemma ilog2_bounds:
  "1 \<le> n \<Longrightarrow> 2 ^ nat (ilog2 n) \<le> n \<and> n < 2 * 2 ^ nat (ilog2 n)"
proof (induction n rule: ilog2.induct)
  case (1 n)
  show ?case
  proof (cases "n < 2")
    case True
    with "1.prems" have "n = 1" by simp
    then show ?thesis by (simp add: ilog2.simps)
  next
    case False
    then have h: "1 \<le> n div 2" by simp
    from "1.IH" [OF False h] have
      lo: "2 ^ nat (ilog2 (n div 2)) \<le> n div 2" and
      hi: "n div 2 < 2 * 2 ^ nat (ilog2 (n div 2))"
      by simp_all
    have e: "ilog2 n = ilog2 (n div 2) + 1"
      using False by (subst ilog2.simps) simp
    have p: "(2::int) ^ nat (ilog2 n) = 2 * 2 ^ nat (ilog2 (n div 2))"
      using ilog2_nonneg [of "n div 2"] by (simp add: e nat_add_distrib)
    from lo hi show ?thesis
      unfolding p by linarith
  qed
qed

text \<open>The binary exponent is the one of the definition of a double.\<close>

lemma binexp_bounds:
  assumes "0 < a"
  shows "pow2 (binexp a) \<le> a \<and> a < pow2 (binexp a + 1)"
proof (cases "1 \<le> a")
  case True
  then have f: "1 \<le> \<lfloor>a\<rfloor>" by simp
  from ilog2_bounds [OF f] have
    lo: "2 ^ nat (ilog2 \<lfloor>a\<rfloor>) \<le> \<lfloor>a\<rfloor>" and hi: "\<lfloor>a\<rfloor> < 2 * 2 ^ nat (ilog2 \<lfloor>a\<rfloor>)"
    by simp_all
  have e: "binexp a = ilog2 \<lfloor>a\<rfloor>"
    using True by (simp add: binexp_def)
  have "rat_of_int (2 ^ nat (ilog2 \<lfloor>a\<rfloor>)) \<le> rat_of_int \<lfloor>a\<rfloor>"
    using lo by (simp only: of_int_le_iff)
  also have "\<dots> \<le> a" by simp
  finally have l: "pow2 (binexp a) \<le> a"
    using ilog2_nonneg [of "\<lfloor>a\<rfloor>"] by (simp add: e pow2_def)
  have "\<lfloor>a\<rfloor> + 1 \<le> 2 * 2 ^ nat (ilog2 \<lfloor>a\<rfloor>)"
    using hi by simp
  then have "rat_of_int (\<lfloor>a\<rfloor> + 1) \<le> rat_of_int (2 * 2 ^ nat (ilog2 \<lfloor>a\<rfloor>))"
    by (simp only: of_int_le_iff)
  moreover have "a < rat_of_int (\<lfloor>a\<rfloor> + 1)"
    using floor_correct [of a] by simp
  ultimately have "a < rat_of_int (2 * 2 ^ nat (ilog2 \<lfloor>a\<rfloor>))"
    by linarith
  then have u: "a < pow2 (binexp a + 1)"
    using ilog2_nonneg [of "\<lfloor>a\<rfloor>"] by (simp add: e pow2_def nat_add_distrib)
  from l u show ?thesis by simp
next
  case False
  define c where "c = \<lceil>1 / a\<rceil>"
  define l where "l = ilog2 (c - 1)"
  from False assms have inv: "1 < 1 / a" by simp
  then have c2: "2 \<le> c"
    unfolding c_def by (simp add: le_ceiling_iff)
  then have n1: "1 \<le> c - 1" by simp
  from ilog2_bounds [OF n1] have
    lo: "2 ^ nat l \<le> c - 1" and hi: "c - 1 < 2 * 2 ^ nat l"
    unfolding l_def by simp_all
  have l0: "0 \<le> l"
    unfolding l_def by (rule ilog2_nonneg)
  have e: "binexp a = - (l + 1)"
    using False by (simp add: binexp_def l_def c_def)
  have cle: "1 / a \<le> rat_of_int c"
    unfolding c_def using ceiling_correct [of "1 / a"] by simp
  have clt: "rat_of_int (c - 1) < 1 / a"
    unfolding c_def using ceiling_correct [of "1 / a"] by simp
  have "c \<le> 2 * 2 ^ nat l"
    using hi by simp
  then have "rat_of_int c \<le> rat_of_int (2 * 2 ^ nat l)"
    by (simp only: of_int_le_iff)
  with cle have "1 / a \<le> 2 * 2 ^ nat l"
    by simp
  then have "1 \<le> a * (2 * 2 ^ nat l)"
    using assms by (simp add: field_simps)
  then have "1 / (2 * 2 ^ nat l) \<le> a"
    by (simp add: field_simps)
  then have lower: "pow2 (binexp a) \<le> a"
    using l0 by (simp add: e pow2_def nat_add_distrib)
  have "rat_of_int (2 ^ nat l) \<le> rat_of_int (c - 1)"
    using lo by (simp only: of_int_le_iff)
  with clt have "2 ^ nat l < 1 / a"
    by simp
  then have "a * 2 ^ nat l < 1"
    using assms by (simp add: field_simps)
  then have "a < 1 / 2 ^ nat l"
    by (simp add: field_simps)
  then have upper: "a < pow2 (binexp a + 1)"
    using l0 by (cases "l = 0") (simp_all add: e pow2_def)
  from lower upper show ?thesis by simp
qed

text \<open>Rounding to an integer moves a number by at most one half.\<close>

lemma round_half_even_near:
  "\<bar>x - of_int (round_half_even x)\<bar> \<le> 1 / 2"
  using floor_correct [of x] by (auto simp: round_half_even_def Let_def)

section \<open>The run of the program\<close>

lemma float_gt_not_le: "float_gt x y \<Longrightarrow> \<not> float_le x y"
  by (cases x; cases y) auto

lemma float_eq_le: "float_eq x y \<Longrightarrow> float_le x y"
  by (simp add: float_eq_def)

lemma get_product_info_pair:
  "get_product_info w cfg = ([lookup_call cfg], snd (get_product_info w cfg))"
  by (simp add: get_product_info_def)

lemma calls_send_sms:
  "sms_calls (fst (send_sms w cfg body)) = [sms_call cfg body]"
  "email_calls (fst (send_sms w cfg body)) = []"
  "network_calls (fst (send_sms w cfg body)) = [sms_call cfg body]"
  by (simp_all add: send_sms_def sms_calls_def email_calls_def network_calls_def sms_call_def
      split: sum.splits)

lemma calls_send_email:
  "sms_calls (fst (send_email w cfg title price)) = []"
  "email_calls (fst (send_email w cfg title price)) = [email_call cfg title price]"
  "network_calls (fst (send_email w cfg title price)) = [email_call cfg title price]"
  by (simp_all add: send_email_def sms_calls_def email_calls_def network_calls_def email_call_def
      split: option.splits)

lemma calls_append:
  "sms_calls (xs @ ys) = sms_calls xs @ sms_calls ys"
  "email_calls (xs @ ys) = email_calls xs @ email_calls ys"
  "network_calls (xs @ ys) = network_calls xs @ network_calls ys"
  by (simp_all add: sms_calls_def email_calls_def network_calls_def)

lemma calls_Print:
  "sms_calls (Print s # xs) = sms_calls xs"
  "email_calls (Print s # xs) = email_calls xs"
  "network_calls (Print s # xs) = network_calls xs"
  by (simp_all add: sms_calls_def email_calls_def network_calls_def)

lemma calls_Nil:
  "sms_calls [] = []" "email_calls [] = []" "network_calls [] = []"
  by (simp_all add: sms_calls_def email_calls_def network_calls_def)

lemma calls_lookup:
  "sms_calls (lookup_call cfg # xs) = sms_calls xs"
  "email_calls (lookup_call cfg # xs) = email_calls xs"
  "network_calls (lookup_call cfg # xs) = lookup_call cfg # network_calls xs"
  by (simp_all add: sms_calls_def email_calls_def network_calls_def lookup_call_def)

lemma calls_report_lines:
  "sms_calls (report_lines cfg title price) = []"
  "email_calls (report_lines cfg title price) = []"
  "network_calls (report_lines cfg title price) = []"
  by (simp_all add: sms_calls_def email_calls_def network_calls_def report_lines_def)

lemmas calls_simps = calls_send_sms calls_send_email calls_append calls_Print calls_Nil
  calls_lookup calls_report_lines

lemma check_triggered:
  assumes "snd (get_product_info w cfg) = Inr (title, price)"
    and "float_le price (expected_price cfg)"
  shows "check_price_and_notify w cfg =
           ([Print ''Fetching product information...'', lookup_call cfg]
              @ report_lines cfg title price
              @ [Print (nl @ ''Price is at or below target! Sending notifications...'')]
              @ fst (send_sms w cfg (notification_msg title price))
              @ fst (send_email w cfg title price),
            Inr ())"
proof -
  have "get_product_info w cfg = ([lookup_call cfg], Inr (title, price))"
    using assms(1) get_product_info_pair [of w cfg] by simp
  then show ?thesis
    using assms(2) by (simp add: check_price_and_notify_def)
qed

lemma check_not_triggered:
  assumes "snd (get_product_info w cfg) = Inr (title, price)"
    and "\<not> float_le price (expected_price cfg)"
  shows "check_price_and_notify w cfg =
           ([Print ''Fetching product information...'', lookup_call cfg]
              @ report_lines cfg title price
              @ [Print (nl @ ''Price is still above target by $''
                         @ fmt2 (float_sub price (expected_price cfg)))],
            Inr ())"
proof -
  have "get_product_info w cfg = ([lookup_call cfg], Inr (title, price))"
    using assms(1) get_product_info_pair [of w cfg] by simp
  then show ?thesis
    using assms(2) by (simp add: check_price_and_notify_def)
qed

lemma check_lookup_failed:
  assumes "snd (get_product_info w cfg) = Inl e"
  shows "check_price_and_notify w cfg =
           ([Print ''Fetching product information...'', lookup_call cfg], Inl e)"
proof -
  have "get_product_info w cfg = ([lookup_call cfg], Inl e)"
    using assms get_product_info_pair [of w cfg] by simp
  then show ?thesis
    by (simp add: check_price_and_notify_def)
qed

lemma get_product_info_demo:
  "snd (get_product_info (demo_world env (Inr [demo_item t (PyFloat x)]) sms smtp) cfg)
     = Inr (Some t, x)"
  by (simp add: get_product_info_def demo_world_def demo_item_def bind_exn_def first_item_def
      product_title_def product_price_def getattr_def subscript0_def float_of_def)

text \<open>
  C1. Once the lookup has returned a title and a price, the SMS notifier and the email
  notifier are called exactly when \<^verbatim>\<open>price <= expected_price\<close> holds, both of them and
  each once; the comparison is inclusive, so equal prices trigger; a price above the
  target calls neither.
\<close>

theorem notify_iff_price_le_expected:
  assumes "snd (get_product_info w cfg) = Inr (title, price)"
  shows "sms_calls (fst (check_price_and_notify w cfg))
           = (if float_le price (expected_price cfg)
              then [sms_call cfg (notification_msg title price)] else [])
       \<and> email_calls (fst (check_price_and_notify w cfg))
           = (if float_le price (expected_price cfg) then [email_call cfg title price] else [])
       \<and> (float_eq price (expected_price cfg) \<longrightarrow>
            sms_calls (fst (check_price_and_notify w cfg)) \<noteq> []
            \<and> email_calls (fst (check_price_and_notify w cfg)) \<noteq> [])
       \<and> (float_gt price (expected_price cfg) \<longrightarrow>
            sms_calls (fst (check_price_and_notify w cfg)) = []
            \<and> email_calls (fst (check_price_and_notify w cfg)) = [])"
proof (cases "float_le price (expected_price cfg)")
  case True
  then have "\<not> float_gt price (expected_price cfg)"
    using float_gt_not_le by blast
  then show ?thesis
    using True check_triggered [OF assms True] by (simp add: calls_simps)
next
  case False
  then have "\<not> float_eq price (expected_price cfg)"
    using float_eq_le by blast
  then show ?thesis
    using False check_not_triggered [OF assms False] by (simp add: calls_simps)
qed

theorem notify_iff_price_le_expected_witness:
  "sms_calls (fst (check_price_and_notify
       (demo_world (demo_env ''50.00'') (Inr [demo_item ''Widget'' (PyFloat (Finite 50))])
          (Inr ''SM1'') None)
       (demo_config (Finite 50))))
     = [TwilioSms ''AC1'' ''tok'' ''Price Alert: Widget is now $50.00!'' ''+15550002'' ''+15550001'']
   \<and> length (email_calls (fst (check_price_and_notify
       (demo_world (demo_env ''50.00'') (Inr [demo_item ''Widget'' (PyFloat (Finite 50))])
          (Inr ''SM1'') None)
       (demo_config (Finite 50))))) = 1
   \<and> sms_calls (fst (check_price_and_notify
       (demo_world (demo_env ''50.00'') (Inr [demo_item ''Widget'' (PyFloat price_50_01)])
          (Inr ''SM1'') None)
       (demo_config (Finite 50)))) = []
   \<and> email_calls (fst (check_price_and_notify
       (demo_world (demo_env ''50.00'') (Inr [demo_item ''Widget'' (PyFloat price_50_01)])
          (Inr ''SM1'') None)
       (demo_config (Finite 50)))) = []"
  using notify_iff_price_le_expected [OF get_product_info_demo,
      of "demo_env ''50.00''" "''Widget''" "Finite 50" "Inr ''SM1''" None "demo_config (Finite 50)"]
    notify_iff_price_le_expected [OF get_product_info_demo,
      of "demo_env ''50.00''" "''Widget''" price_50_01 "Inr ''SM1''" None "demo_config (Finite 50)"]
  by (simp add: demo_config_def sms_call_def notification_msg_def py_str_def fmt2_50
      price_50_01_def)








lemma main_config_error:
  "from_env (environ w) = Inl e \<Longrightarrow> main w = (on_error e, 1)"
  by (simp add: main_def)

lemma main_lookup_error:
  assumes "from_env (environ w) = Inr cfg" and "snd (get_product_info w cfg) = Inl e"
  shows "main w = ([Print ''Fetching product information...'', lookup_call cfg] @ on_error e, 1)"
  using assms(1) check_lookup_failed [OF assms(2)] by (simp add: main_def)

lemma main_completed:
  assumes "from_env (environ w) = Inr cfg" and "snd (get_product_info w cfg) = Inr r"
  shows "main w = (fst (check_price_and_notify w cfg), 0)"
proof (cases r)
  case (Pair title price)
  show ?thesis
  proof (cases "float_le price (expected_price cfg)")
    case True
    from assms(2) Pair have "snd (get_product_info w cfg) = Inr (title, price)" by simp
    from check_triggered [OF this True] assms(1) show ?thesis by (simp add: main_def)
  next
    case False
    from assms(2) Pair have "snd (get_product_info w cfg) = Inr (title, price)" by simp
    from check_not_triggered [OF this False] assms(1) show ?thesis by (simp add: main_def)
  qed
qed





text \<open>
  C5. The exit status is 1 when the configuration cannot be loaded and when the lookup
  fails, and 0 in every other run, whatever the price and whatever the messaging provider
  and the mail server answer.
\<close>

theorem exit_status:
  "snd (main w) =
     (case from_env (environ w) of
        Inl e \<Rightarrow> 1
      | Inr cfg \<Rightarrow> (case snd (get_product_info w cfg) of Inl e \<Rightarrow> 1 | Inr r \<Rightarrow> 0))"
proof (cases "from_env (environ w)")
  case (Inl e)
  with main_config_error [OF Inl] show ?thesis by simp
next
  case (Inr cfg)
  show ?thesis
  proof (cases "snd (get_product_info w cfg)")
    case (Inl e)
    with main_lookup_error [OF Inr Inl] Inr show ?thesis by simp
  next
    case r: (Inr r)
    with main_completed [OF Inr r] Inr show ?thesis by simp
  qed
qed

lemma environ_demo_world: "environ (demo_world env items sms smtp) = env"
  by (simp add: demo_world_def)


lemma get_product_info_demo_empty:
  "snd (get_product_info (demo_world env (Inr []) sms smtp) cfg)
     = Inl (Exn IndexError ''list index out of range'')"
  by (simp add: get_product_info_def demo_world_def bind_exn_def first_item_def)

lemma from_env_demo_unparseable:
  "python_float t = None \<Longrightarrow>
   from_env (demo_env t)
     = Inl (Exn ValueError (''could not convert string to float: '' @ py_repr t))"
  by (simp add: from_env_def demo_env_def bind_exn_def environ_get_def getenv_def float_of_str_def)

lemma python_float_abc: "python_float ''abc'' = None"
  by (simp add: float_parse_defs)

theorem exit_status_witness:
  "snd (main (demo_world (demo_env ''50.00'') (Inr [demo_item ''Widget'' (PyFloat price_49_99)])
               (Inl (Exn Exception ''unreachable'')) (Some (Exn SMTPAuthenticationError ''535'')))) = 0
   \<and> snd (main (demo_world (demo_env ''50.00'') (Inr [demo_item ''Widget'' (PyFloat price_50_01)])
               (Inr ''SM1'') None)) = 0
   \<and> snd (main (demo_world (demo_env ''abc'') (Inr [demo_item ''Widget'' (PyFloat price_49_99)])
               (Inr ''SM1'') None)) = 1
   \<and> snd (main (demo_world (demo_env ''50.00'') (Inr []) (Inr ''SM1'') None)) = 1"
  using
    exit_status [of "demo_world (demo_env ''50.00'') (Inr [demo_item ''Widget'' (PyFloat price_49_99)])
               (Inl (Exn Exception ''unreachable'')) (Some (Exn SMTPAuthenticationError ''535''))"]
    exit_status [of "demo_world (demo_env ''50.00'') (Inr [demo_item ''Widget'' (PyFloat price_50_01)])
               (Inr ''SM1'') None"]
    exit_status [of "demo_world (demo_env ''abc'') (Inr [demo_item ''Widget'' (PyFloat price_49_99)])
               (Inr ''SM1'') None"]
    exit_status [of "demo_world (demo_env ''50.00'') (Inr []) (Inr ''SM1'') None"]
  by (simp add: environ_demo_world from_env_demo [OF python_float_50_00]
      from_env_demo_unparseable [OF python_float_abc] get_product_info_demo
      get_product_info_demo_empty)






lemma calls_sms_call:
  "sms_calls (sms_call cfg body # xs) = sms_call cfg body # sms_calls xs"
  "email_calls (sms_call cfg body # xs) = email_calls xs"
  "network_calls (sms_call cfg body # xs) = sms_call cfg body # network_calls xs"
  by (simp_all add: sms_calls_def email_calls_def network_calls_def sms_call_def)

text \<open>
  C4. A failure of the SMS send is caught inside \<^verbatim>\<open>send_sms\<close>: the notifier prints a line
  with the description of the failure and returns \<^verbatim>\<open>None\<close>; in a triggered run the email
  notifier is called after it all the same, and the run still exits with status 0.
\<close>

theorem sms_failure_is_contained:
  assumes "twilio_create w (twilio_account_sid cfg) (twilio_auth_token cfg) body
             (twilio_to_number cfg) (twilio_from_number cfg) = Inl e"
  shows "send_sms w cfg body =
           ([sms_call cfg body, Print (''Failed to send SMS: '' @ exn_str e)], None)
       \<and> (from_env (environ w) = Inr cfg
            \<and> snd (get_product_info w cfg) = Inr (title, price)
            \<and> float_le price (expected_price cfg)
            \<and> body = notification_msg title price
          \<longrightarrow> fst (main w) =
                 [Print ''Fetching product information...'', lookup_call cfg]
                 @ report_lines cfg title price
                 @ [Print (nl @ ''Price is at or below target! Sending notifications...''),
                    sms_call cfg body, Print (''Failed to send SMS: '' @ exn_str e)]
                 @ fst (send_email w cfg title price)
              \<and> email_calls (fst (main w)) = [email_call cfg title price]
              \<and> snd (main w) = 0)"
proof -
  have s: "send_sms w cfg body =
             ([sms_call cfg body, Print (''Failed to send SMS: '' @ exn_str e)], None)"
    using assms by (simp add: send_sms_def)
  {
    assume c: "from_env (environ w) = Inr cfg"
      and r: "snd (get_product_info w cfg) = Inr (title, price)"
      and le: "float_le price (expected_price cfg)"
      and b: "body = notification_msg title price"
    have m: "main w = (fst (check_price_and_notify w cfg), 0)"
      using main_completed [OF c r] .
    have tr: "fst (main w) =
                 [Print ''Fetching product information...'', lookup_call cfg]
                 @ report_lines cfg title price
                 @ [Print (nl @ ''Price is at or below target! Sending notifications...''),
                    sms_call cfg body, Print (''Failed to send SMS: '' @ exn_str e)]
                 @ fst (send_email w cfg title price)"
      using check_triggered [OF r le] s b m by simp
    have em: "email_calls (fst (main w)) = [email_call cfg title price]"
      unfolding tr by (simp add: calls_simps calls_sms_call)
    have st: "snd (main w) = 0"
      using m by simp
    note tr em st
  }
  with s show ?thesis by blast
qed



theorem sms_failure_is_contained_witness:
  "send_sms (demo_world (demo_env ''50.00'') (Inr [demo_item ''Widget'' (PyFloat price_49_99)])
               (Inl (Exn Exception ''Unable to create record'')) None)
       (demo_config (Finite 50)) ''Price Alert: Widget is now $49.99!''
     = ([sms_call (demo_config (Finite 50)) ''Price Alert: Widget is now $49.99!'',
         Print ''Failed to send SMS: Unable to create record''], None)
   \<and> email_calls (fst (main (demo_world (demo_env ''50.00'')
               (Inr [demo_item ''Widget'' (PyFloat price_49_99)])
               (Inl (Exn Exception ''Unable to create record'')) None)))
     = [email_call (demo_config (Finite 50)) (Some ''Widget'') price_49_99]
   \<and> snd (main (demo_world (demo_env ''50.00'')
               (Inr [demo_item ''Widget'' (PyFloat price_49_99)])
               (Inl (Exn Exception ''Unable to create record'')) None)) = 0"
proof -
  let ?w = "demo_world (demo_env ''50.00'') (Inr [demo_item ''Widget'' (PyFloat price_49_99)])
               (Inl (Exn Exception ''Unable to create record'')) None"
  let ?c = "demo_config (Finite 50)"
  let ?b = "''Price Alert: Widget is now $49.99!''"
  have n: "notification_msg (Some ''Widget'') price_49_99 = ?b"
    by (simp add: notification_msg_def py_str_def fmt2_49_99)
  have f: "twilio_create ?w (twilio_account_sid ?c) (twilio_auth_token ?c)
             (notification_msg (Some ''Widget'') price_49_99)
             (twilio_to_number ?c) (twilio_from_number ?c)
           = Inl (Exn Exception ''Unable to create record'')"
    by (simp add: demo_world_def)
  have c: "from_env (environ ?w) = Inr ?c"
    by (simp add: environ_demo_world from_env_demo [OF python_float_50_00])
  have r: "snd (get_product_info ?w ?c) = Inr (Some ''Widget'', price_49_99)"
    by (simp add: get_product_info_demo)
  have le: "float_le price_49_99 (expected_price ?c)"
    by (simp add: demo_config_def price_49_99_def)
  note t = sms_failure_is_contained [OF f, of "Some ''Widget''" price_49_99]
  from t have s: "send_sms ?w ?c (notification_msg (Some ''Widget'') price_49_99) =
      ([sms_call ?c (notification_msg (Some ''Widget'') price_49_99),
        Print (''Failed to send SMS: '' @ exn_str (Exn Exception ''Unable to create record''))],
       None)"
    by blast
  from t c r le have "email_calls (fst (main ?w)) = [email_call ?c (Some ''Widget'') price_49_99]
      \<and> snd (main ?w) = 0"
    by blast
  with s show ?thesis by (simp add: n)
qed



lemma email_body_target:
  "sublist (''Your Target Price: $'' @ fmt2 (expected_price cfg)) (email_body cfg title price)"
proof -
  have "email_body cfg title price =
          (email_intro @ ''    Product: '' @ py_str title @ nl
           @ ''    Current Price: $'' @ fmt2 price @ nl @ ''    '')
          @ (''Your Target Price: $'' @ fmt2 (expected_price cfg))
          @ (nl @ email_outro)"
    by (simp add: email_body_def)
  then show ?thesis
    using sublist_appendI by metis
qed



lemma printed_append: "printed (xs @ ys) = printed xs @ printed ys"
  by (simp add: printed_def)

lemma printed_simps:
  "printed [] = []"
  "printed (Print s # xs) = s # printed xs"
  "printed (lookup_call cfg # xs) = printed xs"
  "printed (sms_call cfg body # xs) = printed xs"
  "printed (email_call cfg title price # xs) = printed xs"
  by (simp_all add: printed_def lookup_call_def sms_call_def email_call_def)

text \<open>
  C9. In a run that is not triggered (the comparison \<^verbatim>\<open>price <= expected_price\<close> is
  false, as it is whenever the price is above the target) the last line printed is the
  amount \<^verbatim>\<open>price - expected_price\<close> with two decimals, and no notifier is called.
\<close>

theorem shortfall_is_printed:
  assumes "snd (get_product_info w cfg) = Inr (title, price)"
    and "float_gt price (expected_price cfg) \<or> \<not> float_le price (expected_price cfg)"
  shows "printed (fst (check_price_and_notify w cfg))
           = [''Fetching product information...'',
              ''Product: '' @ py_str title,
              ''Current Price: $'' @ fmt2 price,
              ''Target Price: $'' @ fmt2 (expected_price cfg),
              nl @ ''Price is still above target by $''
                 @ fmt2 (float_sub price (expected_price cfg))]
       \<and> sms_calls (fst (check_price_and_notify w cfg)) = []
       \<and> email_calls (fst (check_price_and_notify w cfg)) = []"
proof -
  from assms(2) have "\<not> float_le price (expected_price cfg)"
    using float_gt_not_le by blast
  from check_not_triggered [OF assms(1) this] show ?thesis
    by (simp add: calls_simps printed_append printed_simps report_lines_def)
qed

theorem shortfall_is_printed_witness:
  "float_gt price_50_01 (Finite 50)
   \<and> printed (fst (check_price_and_notify
        (demo_world (demo_env ''50.00'') (Inr [demo_item ''Widget'' (PyFloat price_50_01)])
           (Inr ''SM1'') None) (demo_config (Finite 50))))
      = [''Fetching product information...'', ''Product: Widget'', ''Current Price: $50.01'',
         ''Target Price: $50.00'', nl @ ''Price is still above target by $0.01'']
   \<and> sms_calls (fst (check_price_and_notify
        (demo_world (demo_env ''50.00'') (Inr [demo_item ''Widget'' (PyFloat price_50_01)])
           (Inr ''SM1'') None) (demo_config (Finite 50)))) = []
   \<and> email_calls (fst (check_price_and_notify
        (demo_world (demo_env ''50.00'') (Inr [demo_item ''Widget'' (PyFloat price_50_01)])
           (Inr ''SM1'') None) (demo_config (Finite 50)))) = []"
proof -
  let ?w = "demo_world (demo_env ''50.00'') (Inr [demo_item ''Widget'' (PyFloat price_50_01)])
              (Inr ''SM1'') None"
  let ?c = "demo_config (Finite 50)"
  have r: "snd (get_product_info ?w ?c) = Inr (Some ''Widget'', price_50_01)"
    by (simp add: get_product_info_demo)
  have e: "expected_price ?c = Finite 50"
    by (simp add: demo_config_def)
  have gt: "float_gt price_50_01 (Finite 50)"
    by (simp add: price_50_01_def)
  then have nle: "float_gt price_50_01 (expected_price ?c)
      \<or> \<not> float_le price_50_01 (expected_price ?c)"
    unfolding e by simp
  from shortfall_is_printed [OF r nle] gt show ?thesis
    by (simp add: e py_str_def fmt2_50_01 fmt2_50 shortfall_50_01)
qed

lemma get_product_info_expected_price:
  "get_product_info w (cfg\<lparr>expected_price := x\<rparr>) = get_product_info w cfg"
  by (simp add: get_product_info_def lookup_call_def)

text \<open>
  C10. In a triggered run the body of the SMS is \<^verbatim>\<open>Price Alert: {title} is now
  ${price:.2f}!\<close>: the title and the price with two decimals. The target price is no part
  of it: with any other target that triggers, the body is the same, whereas the body of
  the email states the target.
\<close>

theorem sms_body_is_title_and_price:
  assumes "snd (get_product_info w cfg) = Inr (title, price)"
    and "float_le price (expected_price cfg)"
  shows "map sms_body (sms_calls (fst (check_price_and_notify w cfg)))
           = [''Price Alert: '' @ py_str title @ '' is now $'' @ fmt2 price @ ''!'']
       \<and> (\<forall>x. float_le price x \<longrightarrow>
             map sms_body (sms_calls (fst (check_price_and_notify w (cfg\<lparr>expected_price := x\<rparr>))))
               = [''Price Alert: '' @ py_str title @ '' is now $'' @ fmt2 price @ ''!'']
             \<and> sublist (''Your Target Price: $'' @ fmt2 x)
                 (email_body (cfg\<lparr>expected_price := x\<rparr>) title price))"
proof -
  have a: "map sms_body (sms_calls (fst (check_price_and_notify w cfg)))
           = [''Price Alert: '' @ py_str title @ '' is now $'' @ fmt2 price @ ''!'']"
    using check_triggered [OF assms]
    by (simp add: calls_simps sms_call_def notification_msg_def)
  {
    fix x
    assume le: "float_le price x"
    have r: "snd (get_product_info w (cfg\<lparr>expected_price := x\<rparr>)) = Inr (title, price)"
      using assms(1) by (simp add: get_product_info_expected_price)
    have le': "float_le price (expected_price (cfg\<lparr>expected_price := x\<rparr>))"
      using le by simp
    have "map sms_body (sms_calls (fst (check_price_and_notify w (cfg\<lparr>expected_price := x\<rparr>))))
               = [''Price Alert: '' @ py_str title @ '' is now $'' @ fmt2 price @ ''!'']"
      using check_triggered [OF r le']
      by (simp add: calls_simps sms_call_def notification_msg_def)
    moreover have "sublist (''Your Target Price: $'' @ fmt2 x)
                 (email_body (cfg\<lparr>expected_price := x\<rparr>) title price)"
      using email_body_target [of "cfg\<lparr>expected_price := x\<rparr>" title price] by simp
    ultimately have "map sms_body (sms_calls (fst (check_price_and_notify w (cfg\<lparr>expected_price := x\<rparr>))))
               = [''Price Alert: '' @ py_str title @ '' is now $'' @ fmt2 price @ ''!'']
             \<and> sublist (''Your Target Price: $'' @ fmt2 x)
                 (email_body (cfg\<lparr>expected_price := x\<rparr>) title price)"
      by simp
  }
  with a show ?thesis by blast
qed

theorem sms_body_is_title_and_price_witness:
  "map sms_body (sms_calls (fst (check_price_and_notify
        (demo_world (demo_env ''50.00'') (Inr [demo_item ''Widget'' (PyFloat price_49_99)])
           (Inr ''SM1'') None) (demo_config (Finite 50)))))
     = [''Price Alert: Widget is now $49.99!'']
   \<and> map sms_body (sms_calls (fst (check_price_and_notify
        (demo_world (demo_env ''50.00'') (Inr [demo_item ''Widget'' (PyFloat price_49_99)])
           (Inr ''SM1'') None) ((demo_config (Finite 50))\<lparr>expected_price := Finite 60\<rparr>))))
     = [''Price Alert: Widget is now $49.99!'']"
proof -
  let ?w = "demo_world (demo_env ''50.00'') (Inr [demo_item ''Widget'' (PyFloat price_49_99)])
              (Inr ''SM1'') None"
  let ?c = "demo_config (Finite 50)"
  have r: "snd (get_product_info ?w ?c) = Inr (Some ''Widget'', price_49_99)"
    by (simp add: get_product_info_demo)
  have le: "float_le price_49_99 (expected_price ?c)"
    by (simp add: demo_config_def price_49_99_def)
  have le60: "float_le price_49_99 (Finite 60)"
    by (simp add: price_49_99_def)
  note t = sms_body_is_title_and_price [OF r le]
  from t have "map sms_body (sms_calls (fst (check_price_and_notify ?w ?c)))
      = [''Price Alert: '' @ py_str (Some ''Widget'') @ '' is now $'' @ fmt2 price_49_99 @ ''!'']"
    by blast
  moreover from t le60 have
    "map sms_body (sms_calls (fst (check_price_and_notify ?w (?c\<lparr>expected_price := Finite 60\<rparr>))))
      = [''Price Alert: '' @ py_str (Some ''Widget'') @ '' is now $'' @ fmt2 price_49_99 @ ''!'']"
    by blast
  ultimately show ?thesis
    by (simp add: py_str_def fmt2_49_99)
qed

end
